theory Spec2Isabelle
  imports Main "HOL-Library.Sublist"
begin

section \<open>The team details view (teamsDashboard/teamDetails/index.tsx)\<close>

subsection \<open>The TAB enum\<close>

text \<open>
  \<^verbatim>\<open>enum TAB\<close> is a string enum: at run time a tab is the string the member is
  initialised with, and the \<^verbatim>\<open>switch\<close> statements of the component compare
  strings. The members are therefore string constants, and the enum is the set of
  their values.
\<close>

type_synonym TAB = string

definition TAB_TEAM_FEED :: TAB where
  "TAB_TEAM_FEED = ''team_feed''"

definition TAB_TEAM_GOALS :: TAB where
  "TAB_TEAM_GOALS = ''team_goals''"

definition TAB_PROJECTS :: TAB where
  "TAB_PROJECTS = ''projects''"

definition TAB_MEMBERS :: TAB where
  "TAB_MEMBERS = ''members''"

definition TAB_SETTINGS :: TAB where
  "TAB_SETTINGS = ''settings''"

definition TAB_values :: "TAB list" where
  "TAB_values = [TAB_TEAM_FEED, TAB_TEAM_GOALS, TAB_PROJECTS, TAB_MEMBERS, TAB_SETTINGS]"

subsection \<open>Strings and arrays of JavaScript\<close>

text \<open>
  \<^verbatim>\<open>s.split(sep)\<close> with a one-character separator: the pieces between the
  occurrences of the separator, in order; a string with no separator (the empty
  string too) gives one piece.
\<close>

fun split :: "string \<Rightarrow> char \<Rightarrow> string list" where
  "split [] sep = [[]]"
| "split (c # cs) sep =
     (if c = sep then [] # split cs sep
      else (case split cs sep of
              [] \<Rightarrow> [[c]]
            | piece # pieces \<Rightarrow> (c # piece) # pieces))"

text \<open>
  \<^verbatim>\<open>xs[i]\<close>: reading an array outside its range gives \<^verbatim>\<open>undefined\<close>,
  here \<open>None\<close>.
\<close>

definition js_index :: "'a list \<Rightarrow> int \<Rightarrow> 'a option" where
  "js_index xs i = (if 0 \<le> i \<and> i < int (length xs) then Some (xs ! nat i) else None)"

subsection \<open>Props and state\<close>

datatype Project = Project (project_slug: string)

datatype Member = Member (member_id: string)

record Team =
  slug :: string
  members :: "Member list option"

record Organization =
  access :: "string list"

record Params =
  orgSlug :: string
  teamSlug :: string

record Location =
  pathname :: string

text \<open>
  The props of the component. \<open>'r\<close> is the type of the router's \<^verbatim>\<open>routes\<close>,
  which the component only hands on. \<^verbatim>\<open>withTeam\<close> passes no team when the
  slug matches none, so \<open>team\<close> is optional.
\<close>

record 'r Props =
  params :: Params
  location :: Location
  routes :: 'r
  team :: "Team option"
  isLoading :: bool
  organization :: Organization

text \<open>
  The state of the component. \<open>'a\<close> is the part of the state that
  \<^verbatim>\<open>AsyncComponent\<close> declares (\<^verbatim>\<open>super.getDefaultState()\<close>).
\<close>

record 'a State =
  inherited :: 'a
  searchTerm :: string
  projectsPageLinks :: string
  currentTab :: TAB
  projects :: "Project list"
  unlinkedProjects :: "Project list"

definition getDefaultState :: "'a \<Rightarrow> 'a State" where
  "getDefaultState super_getDefaultState =
     \<lparr> inherited = super_getDefaultState,
       searchTerm = '''',
       projectsPageLinks = '''',
       currentTab = TAB_TEAM_FEED,
       projects = [],
       unlinkedProjects = [] \<rparr>"

subsection \<open>getCurrentTab\<close>

text \<open>
  The second-to-last piece of the path, \<^verbatim>\<open>pathnameEnd[pathnameEnd.length - 2]\<close>.
\<close>

definition pathname_segment :: "string \<Rightarrow> string option" where
  "pathname_segment path =
     (let pathnameEnd = split path CHR ''/''
      in js_index pathnameEnd (int (length pathnameEnd) - 2))"

definition getCurrentTab :: "'r Props \<Rightarrow> 'a State \<Rightarrow> 'a State" where
  "getCurrentTab props state =
     (let pathname = pathname_segment (pathname (location props));
          currentTab =
            (if pathname = Some TAB_TEAM_GOALS then TAB_TEAM_GOALS
             else if pathname = Some TAB_PROJECTS then TAB_PROJECTS
             else if pathname = Some TAB_MEMBERS then TAB_MEMBERS
             else if pathname = Some TAB_SETTINGS then TAB_SETTINGS
             else TAB_TEAM_FEED)
      in state\<lparr>currentTab := currentTab\<rparr>)"

subsection \<open>Errors, promises and the API client\<close>

datatype error = RequestError string | TypeError string

text \<open>
  What a call that returns a promise can do: return a promise that is fulfilled,
  return one that is rejected, or throw before it returns any.
\<close>

datatype 'v settled = Resolves 'v | Rejects error | Throws error

text \<open>
  \<^verbatim>\<open>await\<close> inside \<^verbatim>\<open>try\<close>: a rejected promise is thrown at the
  \<^verbatim>\<open>await\<close>, so the block ends with the error in both failing cases.
\<close>

fun await :: "'v settled \<Rightarrow> error + 'v" where
  "await (Resolves v) = Inr v"
| "await (Rejects e) = Inl e"
| "await (Throws e) = Inl e"

definition try_catch :: "(error + 'v) \<Rightarrow> (error \<Rightarrow> error + 'v) \<Rightarrow> error + 'v" where
  "try_catch body handler = (case body of Inl e \<Rightarrow> handler e | Inr v \<Rightarrow> Inr v)"

text \<open>
  A request as \<^verbatim>\<open>fetchUnlinkedProjects\<close> makes it: the path, and the
  \<^verbatim>\<open>query\<close> entry of the \<^verbatim>\<open>query\<close> option. No method is passed.
\<close>

record Request =
  request_path :: string
  request_query :: string

text \<open>
  \<^verbatim>\<open>this.api\<close> belongs to \<^verbatim>\<open>AsyncComponent\<close> and is not among the
  sources. It is a parameter here: how the server answers each request, and the
  log of the requests made so far.
\<close>

record Client =
  respond :: "Request \<Rightarrow> Project list settled"
  requests :: "Request list"

definition requestPromise :: "Client \<Rightarrow> string \<Rightarrow> string \<Rightarrow> Project list settled \<times> Client" where
  "requestPromise api path q =
     (let request = \<lparr> request_path = path, request_query = q \<rparr>
      in (respond api request, api\<lparr>requests := requests api @ [request]\<rparr>))"

subsection \<open>fetchUnlinkedProjects\<close>

text \<open>
  The optional argument \<^verbatim>\<open>query?: string\<close> in a condition: \<^verbatim>\<open>undefined\<close>
  and the empty string are falsy, every other string is truthy.
\<close>

fun truthy :: "string option \<Rightarrow> bool" where
  "truthy None = False"
| "truthy (Some q) = (q \<noteq> [])"

text \<open>
  The call runs to its end in one step: the state the response is merged into is
  the state at the call.
\<close>

definition fetchUnlinkedProjects ::
  "'r Props \<Rightarrow> string option \<Rightarrow> 'a State \<times> Client \<Rightarrow> (error + 'a State) \<times> Client" where
  "fetchUnlinkedProjects props query = (\<lambda>(state, api).
     (let teamSlug = teamSlug (params props);
          orgSlug = orgSlug (params props);
          (response, api') =
             requestPromise api (''/organizations/'' @ orgSlug @ ''/projects/'')
               (if truthy query then ''!team:'' @ teamSlug @ '' '' @ the query
                else ''!team:'' @ teamSlug)
      in (try_catch
            (case await response of
               Inl e \<Rightarrow> Inl e
             | Inr fetched \<Rightarrow> Inr (state\<lparr>unlinkedProjects := fetched\<rparr>))
            (\<lambda>e. Inr state),
          api')))"

subsection \<open>renderTabContent\<close>

definition canWrite :: "Organization \<Rightarrow> bool" where
  "canWrite org =
     (let access = set (access org)
      in ''org:write'' \<in> access \<or> ''team:admin'' \<in> access)"

text \<open>
  The elements a tab renders to, with the props that are data:
  \<^verbatim>\<open>Feed organization projects\<close>,
  \<^verbatim>\<open>Projects organization projects unlinkedProjects canWrite teamSlug pageLinks\<close>,
  \<^verbatim>\<open>Members organization teamSlug canWrite members\<close>. The \<^verbatim>\<open>api\<close> and
  \<^verbatim>\<open>onQueryUpdate\<close> props hand on the component's own client and
  \<^verbatim>\<open>fetchUnlinkedProjects\<close>.
\<close>

datatype tab_content =
    Feed Organization "Project list"
  | Div string
  | Projects Organization "Project list" "Project list" bool string string
  | Members Organization string bool "Member list option"
  | Null

definition renderTabContent :: "'r Props \<Rightarrow> 'a State \<Rightarrow> error + tab_content" where
  "renderTabContent props state =
     (let canWrite = canWrite (organization props)
      in if currentTab state = TAB_TEAM_FEED then
           Inr (Feed (organization props) (projects state))
         else if currentTab state = TAB_TEAM_GOALS then
           Inr (Div ''Team Goals'')
         else if currentTab state = TAB_PROJECTS then
           (case team props of
              None \<Rightarrow> Inl (TypeError ''team.slug'')
            | Some tm \<Rightarrow>
                Inr (Projects (organization props) (projects state) (unlinkedProjects state)
                       canWrite (slug tm) (projectsPageLinks state)))
         else if currentTab state = TAB_MEMBERS then
           (case team props of
              None \<Rightarrow> Inl (TypeError ''team.slug'')
            | Some tm \<Rightarrow> Inr (Members (organization props) (slug tm) canWrite (members tm)))
         else if currentTab state = TAB_SETTINGS then
           Inr (Div ''Settings'')
         else Inr Null)"

subsection \<open>renderContent\<close>

record Badge =
  badge_text :: nat
  badge_priority :: "string option"

record 'a ListLink =
  link_to :: string
  link_index :: bool
  link_isActive :: bool
  link_onClick :: "'a State \<Rightarrow> 'a State"
  link_label :: string
  link_badge :: "Badge option"

record Header =
  header_team :: Team
  header_teamSlug :: string
  header_orgSlug :: string
  header_origin :: string
  header_projects :: "Project list"

datatype 'a view =
    LoadingIndicator
  | EmptyStateWarning string
  | StyledPageContent Header "'a ListLink list" tab_content

fun view_links :: "'a view \<Rightarrow> 'a ListLink list" where
  "view_links (StyledPageContent header links content) = links"
| "view_links other = []"

fun view_content :: "'a view \<Rightarrow> tab_content option" where
  "view_content (StyledPageContent header links content) = Some content"
| "view_content other = None"

text \<open>
  \<^verbatim>\<open>t\<close> (app/locale) and \<^verbatim>\<open>recreateRoute\<close> (app/utils/recreateRoute) are
  not among the sources: both are parameters. \<^verbatim>\<open>t\<close> takes the message and
  its arguments; \<^verbatim>\<open>recreateRoute\<close> takes the route to append, then
  \<^verbatim>\<open>location\<close>, \<^verbatim>\<open>routes\<close>, \<^verbatim>\<open>params\<close> and \<^verbatim>\<open>stepBack\<close>.
\<close>

definition renderContent ::
  "(string \<Rightarrow> string list \<Rightarrow> string) \<Rightarrow>
   (string \<Rightarrow> Location \<Rightarrow> 'r \<Rightarrow> Params \<Rightarrow> int \<Rightarrow> string) \<Rightarrow>
   'r Props \<Rightarrow> 'a State \<Rightarrow> error + 'a view" where
  "renderContent t recreateRoute props state =
     (let teamSlug = teamSlug (params props);
          orgSlug = orgSlug (params props)
      in if isLoading props then Inr LoadingIndicator
         else case team props of
           None \<Rightarrow> Inr (EmptyStateWarning (t ''Team '%s' was not found'' [teamSlug]))
         | Some tm \<Rightarrow>
            (let currentTab = currentTab state;
                 projects = projects state;
                 baseUrl = recreateRoute '''' (location props) (routes props) (params props) (- 2);
                 origin = (if suffix ''all-teams/'' baseUrl then ''all-teams'' else ''my-teams'');
                 baseTabUrl = baseUrl @ teamSlug @ ''/'';
                 members = (case members tm of None \<Rightarrow> [] | Some ms \<Rightarrow> ms);
                 header = \<lparr> header_team = tm, header_teamSlug = teamSlug,
                            header_orgSlug = orgSlug, header_origin = origin,
                            header_projects = projects \<rparr>;
                 links =
                   [ \<lparr> link_to = baseTabUrl @ ''team-feed/'',
                       link_index = True,
                       link_isActive = (currentTab = TAB_TEAM_FEED),
                       link_onClick = (\<lambda>s. s\<lparr>currentTab := TAB_TEAM_FEED\<rparr>),
                       link_label = t ''Team Feed'' [],
                       link_badge = None \<rparr>,
                     \<lparr> link_to = baseTabUrl @ ''team-goals/'',
                       link_index = False,
                       link_isActive = (currentTab = TAB_TEAM_GOALS),
                       link_onClick = (\<lambda>s. s\<lparr>currentTab := TAB_TEAM_GOALS\<rparr>),
                       link_label = t ''Team Goals'' [],
                       link_badge = None \<rparr>,
                     \<lparr> link_to = baseTabUrl @ ''projects/'',
                       link_index = False,
                       link_isActive = (currentTab = TAB_PROJECTS),
                       link_onClick = (\<lambda>s. s\<lparr>currentTab := TAB_PROJECTS\<rparr>),
                       link_label = t ''Projects'' [],
                       link_badge = Some \<lparr> badge_text = length projects,
                         badge_priority =
                           (if currentTab = TAB_PROJECTS then Some ''active'' else None) \<rparr> \<rparr>,
                     \<lparr> link_to = baseTabUrl @ ''members/'',
                       link_index = False,
                       link_isActive = (currentTab = TAB_MEMBERS),
                       link_onClick = (\<lambda>s. s\<lparr>currentTab := TAB_MEMBERS\<rparr>),
                       link_label = t ''Members'' [],
                       link_badge = Some \<lparr> badge_text = length members,
                         badge_priority =
                           (if currentTab = TAB_MEMBERS then Some ''active'' else None) \<rparr> \<rparr>,
                     \<lparr> link_to = baseTabUrl @ ''settings/'',
                       link_index = False,
                       link_isActive = (currentTab = TAB_SETTINGS),
                       link_onClick = (\<lambda>s. s\<lparr>currentTab := TAB_SETTINGS\<rparr>),
                       link_label = t ''Settings'' [],
                       link_badge = None \<rparr> ]
             in case renderTabContent props state of
                  Inl e \<Rightarrow> Inl e
                | Inr content \<Rightarrow> Inr (StyledPageContent header links content)))"

text \<open>The links of the page as rendered; none while it shows no tabs.\<close>

definition navTabs ::
  "(string \<Rightarrow> string list \<Rightarrow> string) \<Rightarrow>
   (string \<Rightarrow> Location \<Rightarrow> 'r \<Rightarrow> Params \<Rightarrow> int \<Rightarrow> string) \<Rightarrow>
   'r Props \<Rightarrow> 'a State \<Rightarrow> 'a ListLink list" where
  "navTabs t recreateRoute props state =
     (case renderContent t recreateRoute props state of
        Inl e \<Rightarrow> []
      | Inr v \<Rightarrow> view_links v)"

subsection \<open>render\<close>

text \<open>
  The page: the document title (\<^verbatim>\<open>SentryDocumentTitle title objSlug\<close>) and the
  wrapper around what \<^verbatim>\<open>renderContent\<close> returns.
\<close>

datatype 'a page = Fragment string string "'a view"

definition render ::
  "(string \<Rightarrow> string list \<Rightarrow> string) \<Rightarrow>
   (string \<Rightarrow> Location \<Rightarrow> 'r \<Rightarrow> Params \<Rightarrow> int \<Rightarrow> string) \<Rightarrow>
   'r Props \<Rightarrow> 'a State \<Rightarrow> error + 'a page" where
  "render t recreateRoute props state =
     (let teamSlug = teamSlug (params props);
          orgSlug = orgSlug (params props)
      in case renderContent t recreateRoute props state of
           Inl e \<Rightarrow> Inl e
         | Inr content \<Rightarrow> Inr (Fragment (t ''Team %s'' [teamSlug]) orgSlug content))"

subsection \<open>The states of the component\<close>

text \<open>
  The state starts as \<^verbatim>\<open>getDefaultState()\<close> and changes by the methods of the
  component that call \<^verbatim>\<open>setState\<close>: \<^verbatim>\<open>getCurrentTab\<close>, the
  \<^verbatim>\<open>onClick\<close> of a rendered link, and \<^verbatim>\<open>fetchUnlinkedProjects\<close>, under
  any props and any answer of the server.
\<close>

inductive reachable ::
  "(string \<Rightarrow> string list \<Rightarrow> string) \<Rightarrow>
   (string \<Rightarrow> Location \<Rightarrow> 'r \<Rightarrow> Params \<Rightarrow> int \<Rightarrow> string) \<Rightarrow> 'a State \<Rightarrow> bool"
  for t :: "string \<Rightarrow> string list \<Rightarrow> string"
  and recreateRoute :: "string \<Rightarrow> Location \<Rightarrow> 'r \<Rightarrow> Params \<Rightarrow> int \<Rightarrow> string"
  where
    initial: "reachable t recreateRoute (getDefaultState super)"
  | derive: "reachable t recreateRoute s \<Longrightarrow>
       reachable t recreateRoute (getCurrentTab (props :: 'r Props) s)"
  | click: "reachable t recreateRoute s \<Longrightarrow>
       l \<in> set (navTabs t recreateRoute (props :: 'r Props) s) \<Longrightarrow>
       reachable t recreateRoute (link_onClick l s)"
  | fetch: "reachable t recreateRoute s \<Longrightarrow>
       fetchUnlinkedProjects (props :: 'r Props) query (s, api) = (Inr s', api') \<Longrightarrow>
       reachable t recreateRoute s'"

subsection \<open>Paths and messages\<close>

text \<open>
  A path written from its pieces: the pieces with the separator between them
  (\<^verbatim>\<open>pieces.join(sep)\<close>). It serves to say which piece of a path is the
  second-to-last without going through \<open>split\<close>.
\<close>

fun join :: "string list \<Rightarrow> char \<Rightarrow> string" where
  "join [] sep = []"
| "join [s] sep = s"
| "join (s # s' # ss) sep = s @ sep # join (s' # ss) sep"

text \<open>
  Modelled from the spec: \<^verbatim>\<open>t\<close> of app/locale is not among the sources. The
  spec has the empty-state message contain the requested team identifier; the
  model leaves the message untranslated and puts each argument in the place of
  the next \<^verbatim>\<open>%s\<close>.
\<close>

fun sprintf :: "string \<Rightarrow> string list \<Rightarrow> string" where
  "sprintf (c # d # rest) (a # args) =
     (if c = CHR ''%'' \<and> d = CHR ''s'' then a @ sprintf rest args
      else c # sprintf (d # rest) (a # args))"
| "sprintf message args = message"

subsection \<open>Example inputs\<close>

definition example_props :: "unit Props" where
  "example_props =
     \<lparr> params = \<lparr> orgSlug = ''acme'', teamSlug = ''backend'' \<rparr>,
       location = \<lparr> pathname = ''/organizations/acme/teams/my-teams/backend/team-goals/'' \<rparr>,
       routes = (),
       team = Some \<lparr> slug = ''backend'', members = Some [Member ''1''] \<rparr>,
       isLoading = False,
       organization = \<lparr> access = [''org:read'', ''team:admin''] \<rparr> \<rparr>"

definition example_state :: "unit State" where
  "example_state = (getDefaultState ())\<lparr>unlinkedProjects := [Project ''web'']\<rparr>"

definition example_recreateRoute ::
  "string \<Rightarrow> Location \<Rightarrow> unit \<Rightarrow> Params \<Rightarrow> int \<Rightarrow> string" where
  "example_recreateRoute route l r p stepBack =
     ''/organizations/'' @ orgSlug p @ ''/teams/my-teams/'' @ route"

definition failing_api :: Client where
  "failing_api = \<lparr> respond = (\<lambda>request. Rejects (RequestError ''500'')), requests = [] \<rparr>"

section \<open>Properties\<close>

lemmas TAB_defs =
  TAB_TEAM_FEED_def TAB_TEAM_GOALS_def TAB_PROJECTS_def TAB_MEMBERS_def TAB_SETTINGS_def

text \<open>\<open>split\<close> returns at least one piece: the empty branch of its case is never taken.\<close>

lemma split_not_Nil: "split s sep \<noteq> []"
  by (cases s) (simp_all split: list.splits)

subsection \<open>Pieces of a path\<close>

lemma split_append_sep:
  "sep \<notin> set s \<Longrightarrow> split (s @ sep # rest) sep = s # split rest sep"
  by (induction s) (auto split: list.splits)

lemma split_no_sep: "sep \<notin> set s \<Longrightarrow> split s sep = [s]"
  by (induction s) (auto split: list.splits)

lemma split_join:
  "segs \<noteq> [] \<Longrightarrow> \<forall>s \<in> set segs. sep \<notin> set s \<Longrightarrow> split (join segs sep) sep = segs"
  by (induction segs sep rule: join.induct) (auto simp: split_append_sep split_no_sep)

lemma pathname_segment_join:
  assumes "\<forall>s \<in> set (pre @ [seg, lst]). CHR ''/'' \<notin> set s"
  shows "pathname_segment (join (pre @ [seg, lst]) CHR ''/'') = Some seg"
proof -
  have "split (join (pre @ [seg, lst]) CHR ''/'') CHR ''/'' = pre @ [seg, lst]"
    using assms by (intro split_join) auto
  then show ?thesis
    by (simp add: pathname_segment_def js_index_def nth_append)
qed

lemma pathname_segment_short:
  "CHR ''/'' \<notin> set path \<Longrightarrow> pathname_segment path = None"
  by (simp add: pathname_segment_def js_index_def split_no_sep)

lemma getCurrentTab_in_TAB: "currentTab (getCurrentTab props s) \<in> set TAB_values"
  by (simp add: getCurrentTab_def TAB_values_def Let_def)

subsection \<open>The tab derived from the path\<close>

text \<open>
  C1. The claim: a path whose second-to-last piece is \<^verbatim>\<open>team-goals\<close> gives the
  goals tab, one with \<^verbatim>\<open>projects\<close> the projects tab, one with \<^verbatim>\<open>unknown\<close>
  the feed tab. The code compares the piece with the values of the enum, and the
  value of \<^verbatim>\<open>TAB.TEAM_GOALS\<close> is \<^verbatim>\<open>team_goals\<close>, with an underscore, while the
  link to the goals tab ends in \<^verbatim>\<open>team-goals/\<close>: on the path of that link
  \<^verbatim>\<open>getCurrentTab\<close> falls to the default branch and sets the feed tab. The paths
  with \<^verbatim>\<open>projects\<close> and \<^verbatim>\<open>unknown\<close> give what the claim says.
\<close>

theorem getCurrentTab_goals_path:
  "currentTab (getCurrentTab example_props (getDefaultState ())) = TAB_TEAM_FEED
   \<and> currentTab (getCurrentTab example_props (getDefaultState ())) \<noteq> TAB_TEAM_GOALS
   \<and> currentTab (getCurrentTab
        (example_props\<lparr>location :=
           \<lparr>pathname = ''/organizations/acme/teams/my-teams/backend/projects/''\<rparr>\<rparr>)
        (getDefaultState ())) = TAB_PROJECTS
   \<and> currentTab (getCurrentTab
        (example_props\<lparr>location :=
           \<lparr>pathname = ''/organizations/acme/teams/my-teams/backend/unknown/''\<rparr>\<rparr>)
        (getDefaultState ())) = TAB_TEAM_FEED"
  by (simp add: getCurrentTab_def pathname_segment_def js_index_def getDefaultState_def
      example_props_def TAB_defs)

text \<open>
  C2. \<^verbatim>\<open>getCurrentTab\<close> is a total function of the path: the tab it sets is one
  of the five values of the enum; on a path with at least two pieces it depends
  on the second-to-last piece alone, and is the feed tab unless that piece is the
  value of one of the four other members; on a path with one piece only (no
  slash) it is the feed tab.
\<close>

theorem getCurrentTab_total:
  "currentTab (getCurrentTab props state) \<in> set TAB_values
   \<and> (\<forall>pre seg lst.
        pathname (location props) = join (pre @ [seg, lst]) CHR ''/''
        \<and> (\<forall>s \<in> set (pre @ [seg, lst]). CHR ''/'' \<notin> set s)
        \<longrightarrow> currentTab (getCurrentTab props state) =
              (if seg = TAB_TEAM_GOALS then TAB_TEAM_GOALS
               else if seg = TAB_PROJECTS then TAB_PROJECTS
               else if seg = TAB_MEMBERS then TAB_MEMBERS
               else if seg = TAB_SETTINGS then TAB_SETTINGS
               else TAB_TEAM_FEED))
   \<and> (CHR ''/'' \<notin> set (pathname (location props))
        \<longrightarrow> currentTab (getCurrentTab props state) = TAB_TEAM_FEED)"
proof (intro conjI allI impI)
  show "currentTab (getCurrentTab props state) \<in> set TAB_values"
    by (rule getCurrentTab_in_TAB)
next
  fix pre seg lst
  assume h: "pathname (location props) = join (pre @ [seg, lst]) CHR ''/''
        \<and> (\<forall>s \<in> set (pre @ [seg, lst]). CHR ''/'' \<notin> set s)"
  then have "pathname_segment (pathname (location props)) = Some seg"
    using pathname_segment_join [of pre seg lst] by simp
  then show "currentTab (getCurrentTab props state) =
              (if seg = TAB_TEAM_GOALS then TAB_TEAM_GOALS
               else if seg = TAB_PROJECTS then TAB_PROJECTS
               else if seg = TAB_MEMBERS then TAB_MEMBERS
               else if seg = TAB_SETTINGS then TAB_SETTINGS
               else TAB_TEAM_FEED)"
    by (simp add: getCurrentTab_def)
next
  assume "CHR ''/'' \<notin> set (pathname (location props))"
  then have "pathname_segment (pathname (location props)) = None"
    by (rule pathname_segment_short)
  then show "currentTab (getCurrentTab props state) = TAB_TEAM_FEED"
    by (simp add: getCurrentTab_def)
qed

theorem getCurrentTab_total_witness:
  "currentTab (getCurrentTab example_props example_state) \<in> set TAB_values
   \<and> pathname (location example_props) =
       join (['''', ''organizations'', ''acme'', ''teams'', ''my-teams'', ''backend'']
             @ [''team-goals'', '''']) CHR ''/''
   \<and> list_all (\<lambda>s. CHR ''/'' \<notin> set s)
       (['''', ''organizations'', ''acme'', ''teams'', ''my-teams'', ''backend'']
        @ [''team-goals'', ''''])
   \<and> currentTab (getCurrentTab example_props example_state) = TAB_TEAM_FEED
   \<and> CHR ''/'' \<notin> set (pathname (location
         (example_props\<lparr>location := \<lparr>pathname = ''team_goals''\<rparr>\<rparr>)))
   \<and> currentTab (getCurrentTab
         (example_props\<lparr>location := \<lparr>pathname = ''team_goals''\<rparr>\<rparr>) example_state)
       = TAB_TEAM_FEED"
proof -
  have a: "pathname (location example_props) =
       join (['''', ''organizations'', ''acme'', ''teams'', ''my-teams'', ''backend'']
             @ [''team-goals'', '''']) CHR ''/''"
    by (simp add: example_props_def)
  have b: "\<forall>s \<in> set (['''', ''organizations'', ''acme'', ''teams'', ''my-teams'', ''backend'']
             @ [''team-goals'', '''']). CHR ''/'' \<notin> set s"
    by simp
  have c: "CHR ''/'' \<notin> set (pathname (location
         (example_props\<lparr>location := \<lparr>pathname = ''team_goals''\<rparr>\<rparr>)))"
    by simp
  have d: "currentTab (getCurrentTab example_props example_state) = TAB_TEAM_FEED"
    using getCurrentTab_total [of example_props example_state, THEN conjunct2, THEN conjunct1,
        rule_format,
        of "['''', ''organizations'', ''acme'', ''teams'', ''my-teams'', ''backend'']"
          "''team-goals''" "''''"] a b
    by (simp add: TAB_defs)
  have e: "currentTab (getCurrentTab
         (example_props\<lparr>location := \<lparr>pathname = ''team_goals''\<rparr>\<rparr>) example_state)
       = TAB_TEAM_FEED"
    using getCurrentTab_total
        [of "example_props\<lparr>location := \<lparr>pathname = ''team_goals''\<rparr>\<rparr>" example_state,
         THEN conjunct2, THEN conjunct2] c
    by simp
  show ?thesis
    using a b c d e getCurrentTab_total [of example_props example_state, THEN conjunct1]
    by simp
qed

subsection \<open>The write capability\<close>

text \<open>
  C3. \<^verbatim>\<open>canWrite\<close> is true exactly when the access grants of the organization
  contain \<^verbatim>\<open>org:write\<close> or \<^verbatim>\<open>team:admin\<close>; with no grant at all it is false.
\<close>

theorem canWrite_iff:
  "canWrite org = (''org:write'' \<in> set (access org) \<or> ''team:admin'' \<in> set (access org))
   \<and> canWrite \<lparr>access = []\<rparr> = False"
  by (simp add: canWrite_def Let_def)

subsection \<open>Fetching the unlinked projects\<close>

lemma issued_request:
  "requests (snd (fetchUnlinkedProjects props query (state, api))) =
     requests api @
       [\<lparr> request_path = ''/organizations/'' @ orgSlug (params props) @ ''/projects/'',
          request_query = (if truthy query then ''!team:'' @ teamSlug (params props) @ '' '' @ the query
                           else ''!team:'' @ teamSlug (params props)) \<rparr>]"
  by (simp add: fetchUnlinkedProjects_def requestPromise_def Let_def)

lemma fetch_result:
  "fst (fetchUnlinkedProjects props query (state, api)) =
     (case respond api
        \<lparr> request_path = ''/organizations/'' @ orgSlug (params props) @ ''/projects/'',
          request_query = (if truthy query then ''!team:'' @ teamSlug (params props) @ '' '' @ the query
                           else ''!team:'' @ teamSlug (params props)) \<rparr> of
        Resolves fetched \<Rightarrow> Inr (state\<lparr>unlinkedProjects := fetched\<rparr>)
      | Rejects e \<Rightarrow> Inr state
      | Throws e \<Rightarrow> Inr state)"
  by (simp add: fetchUnlinkedProjects_def requestPromise_def Let_def try_catch_def
      split: settled.splits)

text \<open>
  C4. When the request that \<^verbatim>\<open>fetchUnlinkedProjects\<close> issues is rejected, or
  the call of the client throws, \<^verbatim>\<open>fetchUnlinkedProjects\<close> returns normally and
  the state is the state before the call: the unlinked projects, like every other
  field, keep their value.
\<close>

theorem fetchUnlinkedProjects_failure:
  assumes "respond api (last (requests (snd (fetchUnlinkedProjects props query (state, api))))) = Rejects e
         \<or> respond api (last (requests (snd (fetchUnlinkedProjects props query (state, api))))) = Throws e"
  shows "fst (fetchUnlinkedProjects props query (state, api)) = Inr state"
  using assms by (auto simp: issued_request fetch_result)

theorem fetchUnlinkedProjects_failure_witness:
  "respond failing_api (last (requests (snd
       (fetchUnlinkedProjects example_props (Some ''api'') (example_state, failing_api)))))
     = Rejects (RequestError ''500'')
   \<and> fst (fetchUnlinkedProjects example_props (Some ''api'') (example_state, failing_api))
     = Inr example_state
   \<and> unlinkedProjects example_state = [Project ''web'']"
proof -
  have h: "respond failing_api (last (requests (snd
       (fetchUnlinkedProjects example_props (Some ''api'') (example_state, failing_api)))))
     = Rejects (RequestError ''500'')"
    by (simp add: failing_api_def)
  show ?thesis
    using h fetchUnlinkedProjects_failure [OF disjI1, OF h]
    by (simp add: example_state_def)
qed

text \<open>
  C9. The claim: the request goes to \<^verbatim>\<open>/organizations/{orgSlug}/projects/\<close>
  with the query \<^verbatim>\<open>!team:{teamSlug}\<close> when no filter is given, and with the
  filter after one space when a filter is given. That fails for the empty filter:
  the code tests the filter for truthiness, so the empty string gives the query
  without the space.
\<close>

theorem fetchUnlinkedProjects_request_counterexample:
  "requests (snd (fetchUnlinkedProjects example_props (Some '''') (example_state, failing_api)))
   \<noteq> requests failing_api @
       [\<lparr> request_path = ''/organizations/acme/projects/'',
          request_query = ''!team:backend'' @ '' '' @ '''' \<rparr>]"
  by (simp add: issued_request example_props_def)

text \<open>
  C9, amended. The request goes to \<^verbatim>\<open>/organizations/{orgSlug}/projects/\<close>;
  its query is \<^verbatim>\<open>!team:{teamSlug}\<close> when no filter or the empty filter is
  given, and \<^verbatim>\<open>!team:{teamSlug} {filter}\<close> when a non-empty filter is given.
\<close>

theorem fetchUnlinkedProjects_request:
  "(query = None \<or> query = Some '''' \<longrightarrow>
      requests (snd (fetchUnlinkedProjects props query (state, api))) =
        requests api @
          [\<lparr> request_path = ''/organizations/'' @ orgSlug (params props) @ ''/projects/'',
             request_query = ''!team:'' @ teamSlug (params props) \<rparr>])
   \<and> (\<forall>f. query = Some f \<and> f \<noteq> '''' \<longrightarrow>
      requests (snd (fetchUnlinkedProjects props query (state, api))) =
        requests api @
          [\<lparr> request_path = ''/organizations/'' @ orgSlug (params props) @ ''/projects/'',
             request_query = ''!team:'' @ teamSlug (params props) @ '' '' @ f \<rparr>])"
  by (auto simp: issued_request)

theorem fetchUnlinkedProjects_request_witness:
  "requests (snd (fetchUnlinkedProjects example_props None (example_state, failing_api)))
     = [\<lparr> request_path = ''/organizations/acme/projects/'', request_query = ''!team:backend'' \<rparr>]
   \<and> ''api'' \<noteq> ''''
   \<and> requests (snd (fetchUnlinkedProjects example_props (Some ''api'') (example_state, failing_api)))
     = [\<lparr> request_path = ''/organizations/acme/projects/'',
          request_query = ''!team:backend api'' \<rparr>]"
proof -
  have a: "requests (snd (fetchUnlinkedProjects example_props None (example_state, failing_api)))
     = [\<lparr> request_path = ''/organizations/acme/projects/'', request_query = ''!team:backend'' \<rparr>]"
    using fetchUnlinkedProjects_request [of None example_props example_state failing_api,
        THEN conjunct1]
    by (simp add: example_props_def failing_api_def)
  have b: "requests (snd (fetchUnlinkedProjects example_props (Some ''api'') (example_state, failing_api)))
     = [\<lparr> request_path = ''/organizations/acme/projects/'',
          request_query = ''!team:backend api'' \<rparr>]"
    using fetchUnlinkedProjects_request [of "Some ''api''" example_props example_state failing_api,
        THEN conjunct2, rule_format, of "''api''"]
    by (simp add: example_props_def failing_api_def)
  show ?thesis using a b by simp
qed

text \<open>
  C10. With the empty string as filter \<^verbatim>\<open>fetchUnlinkedProjects\<close> does what it
  does with no filter; the query of its request is \<^verbatim>\<open>!team:{teamSlug}\<close>, with no
  space after it.
\<close>

theorem fetchUnlinkedProjects_empty_filter:
  "fetchUnlinkedProjects props (Some '''') x = fetchUnlinkedProjects props None x
   \<and> request_query (last (requests (snd (fetchUnlinkedProjects props (Some '''') (state, api)))))
       = ''!team:'' @ teamSlug (params props)"
  by (simp add: fetchUnlinkedProjects_def requestPromise_def Let_def split: prod.splits)

subsection \<open>The current tab\<close>

lemma renderTabContent_team:
  "team props = Some tm \<Longrightarrow> \<exists>content. renderTabContent props state = Inr content"
  by (simp add: renderTabContent_def Let_def)

lemma navTabs_loaded:
  assumes "\<not> isLoading props" and "team props = Some tm"
  shows "map (\<lambda>l. link_onClick l s) (navTabs t recreateRoute props state) =
           map (\<lambda>tab. s\<lparr>currentTab := tab\<rparr>) TAB_values"
proof -
  obtain content where "renderTabContent props state = Inr content"
    using renderTabContent_team [OF assms(2)] by blast
  then show ?thesis
    using assms by (simp add: navTabs_def renderContent_def Let_def TAB_values_def)
qed

lemma navTabs_click:
  assumes "l \<in> set (navTabs t recreateRoute props state)"
  shows "currentTab (link_onClick l s) \<in> set TAB_values"
proof (cases "isLoading props")
  case True
  then show ?thesis using assms by (simp add: navTabs_def renderContent_def Let_def)
next
  case False
  show ?thesis
  proof (cases "team props")
    case None
    then show ?thesis using assms False by (simp add: navTabs_def renderContent_def Let_def)
  next
    case (Some tm)
    have "link_onClick l s \<in> set (map (\<lambda>l. link_onClick l s) (navTabs t recreateRoute props state))"
      using assms by simp
    then have "link_onClick l s \<in> set (map (\<lambda>tab. s\<lparr>currentTab := tab\<rparr>) TAB_values)"
      by (simp only: navTabs_loaded [OF False Some])
    then show ?thesis by auto
  qed
qed

lemma fetch_currentTab:
  "fetchUnlinkedProjects props query (s, api) = (Inr s', api') \<Longrightarrow> currentTab s' = currentTab s"
  using fetch_result [of props query s api]
  by (auto split: settled.splits)

text \<open>
  C5. In every state the component reaches, the current tab is one of the five
  values of the enum: it is so in the default state, and \<^verbatim>\<open>getCurrentTab\<close>, the
  click on a link and \<^verbatim>\<open>fetchUnlinkedProjects\<close> keep it so.
\<close>

theorem currentTab_invariant:
  "reachable t recreateRoute s \<Longrightarrow> currentTab s \<in> set TAB_values"
proof (induction rule: reachable.induct)
  case (initial super)
  show ?case by (simp add: getDefaultState_def TAB_values_def)
next
  case (derive s props)
  show ?case by (rule getCurrentTab_in_TAB)
next
  case (click s l props)
  then show ?case by (auto intro: navTabs_click)
next
  case (fetch s props query api s' api')
  then show ?case by (simp add: fetch_currentTab)
qed

theorem currentTab_invariant_witness:
  "reachable sprintf example_recreateRoute
     (link_onClick
        (navTabs sprintf example_recreateRoute example_props
           (getCurrentTab example_props (getDefaultState ())) ! 3)
        (getCurrentTab example_props (getDefaultState ())))
   \<and> currentTab
     (link_onClick
        (navTabs sprintf example_recreateRoute example_props
           (getCurrentTab example_props (getDefaultState ())) ! 3)
        (getCurrentTab example_props (getDefaultState ()))) = ''members''
   \<and> ''members'' \<in> set TAB_values"
proof -
  have len: "length (navTabs sprintf example_recreateRoute example_props
           (getCurrentTab example_props (getDefaultState ()))) = 5"
    by (simp add: navTabs_def renderContent_def renderTabContent_def Let_def example_props_def)
  have r: "reachable sprintf example_recreateRoute
     (link_onClick
        (navTabs sprintf example_recreateRoute example_props
           (getCurrentTab example_props (getDefaultState ())) ! 3)
        (getCurrentTab example_props (getDefaultState ())))"
    by (rule reachable.click [where props = example_props, OF reachable.derive [OF reachable.initial]])
       (simp add: len)
  have v: "currentTab
     (link_onClick
        (navTabs sprintf example_recreateRoute example_props
           (getCurrentTab example_props (getDefaultState ())) ! 3)
        (getCurrentTab example_props (getDefaultState ()))) = ''members''"
    by (simp add: navTabs_def renderContent_def renderTabContent_def Let_def example_props_def
        TAB_defs)
  show ?thesis
    using r v currentTab_invariant [OF r] by simp
qed

text \<open>
  C6. When the page shows its tabs (loading is over and there is a team), it has
  five links, to \<^verbatim>\<open>team-feed/\<close>, \<^verbatim>\<open>team-goals/\<close>, \<^verbatim>\<open>projects/\<close>,
  \<^verbatim>\<open>members/\<close> and \<^verbatim>\<open>settings/\<close>, each active when the current tab is its
  member of the enum. Clicking a link, in any state whatever the fetches have done
  to it, sets the current tab to that member and leaves every other field of the
  state as it was.
\<close>

theorem tab_link_click:
  "\<not> isLoading props \<and> team props \<noteq> None \<longrightarrow>
     map link_to (navTabs t recreateRoute props state) =
       map (\<lambda>tab. recreateRoute '''' (location props) (routes props) (params props) (- 2)
                    @ teamSlug (params props) @ ''/'' @ tab @ ''/'')
         [''team-feed'', ''team-goals'', ''projects'', ''members'', ''settings'']
     \<and> map link_isActive (navTabs t recreateRoute props state) =
         map (\<lambda>tab. currentTab state = tab) TAB_values
     \<and> (\<forall>s. map (\<lambda>l. link_onClick l s) (navTabs t recreateRoute props state) =
              map (\<lambda>tab. s\<lparr>currentTab := tab\<rparr>) TAB_values)"
proof (intro impI, elim conjE)
  assume a: "\<not> isLoading props" and b: "team props \<noteq> None"
  then obtain tm where tm: "team props = Some tm" by blast
  obtain content where c: "renderTabContent props state = Inr content"
    using renderTabContent_team [OF tm] by blast
  show "map link_to (navTabs t recreateRoute props state) =
       map (\<lambda>tab. recreateRoute '''' (location props) (routes props) (params props) (- 2)
                    @ teamSlug (params props) @ ''/'' @ tab @ ''/'')
         [''team-feed'', ''team-goals'', ''projects'', ''members'', ''settings'']
     \<and> map link_isActive (navTabs t recreateRoute props state) =
         map (\<lambda>tab. currentTab state = tab) TAB_values
     \<and> (\<forall>s. map (\<lambda>l. link_onClick l s) (navTabs t recreateRoute props state) =
              map (\<lambda>tab. s\<lparr>currentTab := tab\<rparr>) TAB_values)"
    using a tm c by (simp add: navTabs_def renderContent_def Let_def TAB_values_def)
qed

theorem tab_link_click_witness:
  "\<not> isLoading example_props \<and> team example_props \<noteq> None
   \<and> map link_to (navTabs sprintf example_recreateRoute example_props example_state) =
       [''/organizations/acme/teams/my-teams/backend/team-feed/'',
        ''/organizations/acme/teams/my-teams/backend/team-goals/'',
        ''/organizations/acme/teams/my-teams/backend/projects/'',
        ''/organizations/acme/teams/my-teams/backend/members/'',
        ''/organizations/acme/teams/my-teams/backend/settings/'']
   \<and> map (\<lambda>l. link_onClick l example_state)
         (navTabs sprintf example_recreateRoute example_props example_state) =
       [example_state\<lparr>currentTab := ''team_feed''\<rparr>,
        example_state\<lparr>currentTab := ''team_goals''\<rparr>,
        example_state\<lparr>currentTab := ''projects''\<rparr>,
        example_state\<lparr>currentTab := ''members''\<rparr>,
        example_state\<lparr>currentTab := ''settings''\<rparr>]"
proof -
  have h: "\<not> isLoading example_props \<and> team example_props \<noteq> None"
    by (simp add: example_props_def)
  show ?thesis
    using h tab_link_click [of example_props sprintf example_recreateRoute example_state,
        THEN mp, OF h]
    by (simp add: TAB_values_def TAB_defs example_props_def example_recreateRoute_def)
qed

subsection \<open>Loading and the missing team\<close>

text \<open>
  C7. While \<^verbatim>\<open>isLoading\<close> is true, whatever the state and its current tab,
  \<^verbatim>\<open>renderContent\<close> returns the loading indicator alone: the page is the
  document title and the indicator, with no link and no tab content.
\<close>

theorem loading_renders_indicator:
  "isLoading props \<Longrightarrow>
     renderContent t recreateRoute props state = Inr LoadingIndicator
     \<and> render t recreateRoute props state =
         Inr (Fragment (t ''Team %s'' [teamSlug (params props)]) (orgSlug (params props))
                LoadingIndicator)
     \<and> navTabs t recreateRoute props state = []
     \<and> (\<forall>v. renderContent t recreateRoute props state = Inr v \<longrightarrow> view_content v = None)"
  by (simp add: renderContent_def render_def navTabs_def Let_def)

theorem loading_renders_indicator_witness:
  "isLoading (example_props\<lparr>isLoading := True\<rparr>)
   \<and> renderContent sprintf example_recreateRoute (example_props\<lparr>isLoading := True\<rparr>)
        (example_state\<lparr>currentTab := TAB_PROJECTS\<rparr>) = Inr LoadingIndicator
   \<and> navTabs sprintf example_recreateRoute (example_props\<lparr>isLoading := True\<rparr>)
        (example_state\<lparr>currentTab := TAB_PROJECTS\<rparr>) = []"
proof -
  have h: "isLoading (example_props\<lparr>isLoading := True\<rparr>)"
    by simp
  show ?thesis
    using h loading_renders_indicator [OF h, of sprintf example_recreateRoute
        "example_state\<lparr>currentTab := TAB_PROJECTS\<rparr>"]
    by simp
qed

lemma sprintf_not_found:
  "sprintf ''Team '%s' was not found'' [x] = ''Team '' @ CHR 0x27 # x @ CHR 0x27 # '' was not found''"
  by simp

lemma sublist_not_found:
  "sublist x (''Team '' @ CHR 0x27 # x @ CHR 0x27 # '' was not found'')"
proof -
  have "''Team '' @ CHR 0x27 # x @ CHR 0x27 # '' was not found''
          = (''Team '' @ [CHR 0x27]) @ x @ (CHR 0x27 # '' was not found'')"
    by simp
  then show ?thesis
    unfolding sublist_def by blast
qed

text \<open>
  C8. When loading is over and there is no team, \<^verbatim>\<open>renderContent\<close> returns the
  empty-state warning whose message is \<^verbatim>\<open>t\<close> applied to
  \<^verbatim>\<open>Team '%s' was not found\<close> and the requested \<^verbatim>\<open>teamSlug\<close>; with the
  arguments put in place, the message contains the slug. There is no link and no
  tab content.
\<close>

theorem team_not_found:
  "\<not> isLoading props \<Longrightarrow> team props = None \<Longrightarrow>
     renderContent t recreateRoute props state =
       Inr (EmptyStateWarning (t ''Team '%s' was not found'' [teamSlug (params props)]))
     \<and> renderContent sprintf recreateRoute props state =
       Inr (EmptyStateWarning
             (''Team '' @ CHR 0x27 # teamSlug (params props) @ CHR 0x27 # '' was not found''))
     \<and> sublist (teamSlug (params props))
         (''Team '' @ CHR 0x27 # teamSlug (params props) @ CHR 0x27 # '' was not found'')
     \<and> navTabs t recreateRoute props state = []
     \<and> (\<forall>v. renderContent t recreateRoute props state = Inr v \<longrightarrow> view_content v = None)"
proof (intro conjI)
  assume a: "\<not> isLoading props" and b: "team props = None"
  show "renderContent t recreateRoute props state =
       Inr (EmptyStateWarning (t ''Team '%s' was not found'' [teamSlug (params props)]))"
    using a b by (simp add: renderContent_def Let_def)
  then show "navTabs t recreateRoute props state = []"
    and "\<forall>v. renderContent t recreateRoute props state = Inr v \<longrightarrow> view_content v = None"
    by (simp_all add: navTabs_def)
  have "renderContent sprintf recreateRoute props state =
       Inr (EmptyStateWarning (sprintf ''Team '%s' was not found'' [teamSlug (params props)]))"
    using a b by (simp only: renderContent_def Let_def if_False option.case)
  then show "renderContent sprintf recreateRoute props state =
       Inr (EmptyStateWarning
             (''Team '' @ CHR 0x27 # teamSlug (params props) @ CHR 0x27 # '' was not found''))"
    by (simp only: sprintf_not_found)
  show "sublist (teamSlug (params props))
         (''Team '' @ CHR 0x27 # teamSlug (params props) @ CHR 0x27 # '' was not found'')"
    by (rule sublist_not_found)
qed

theorem team_not_found_witness:
  "\<not> isLoading (example_props\<lparr>team := None\<rparr>) \<and> team (example_props\<lparr>team := None\<rparr>) = None
   \<and> renderContent sprintf example_recreateRoute (example_props\<lparr>team := None\<rparr>) example_state
       = Inr (EmptyStateWarning ''Team 'backend' was not found'')
   \<and> navTabs sprintf example_recreateRoute (example_props\<lparr>team := None\<rparr>) example_state = []"
proof -
  have a: "\<not> isLoading (example_props\<lparr>team := None\<rparr>)"
    by (simp add: example_props_def)
  have b: "team (example_props\<lparr>team := None\<rparr>) = None"
    by simp
  show ?thesis
    using a b team_not_found [OF a b, of sprintf example_recreateRoute example_state]
    by (simp add: example_props_def)
qed

end
